theory Spec2Isabelle
  imports Main
begin

section \<open>Python values and string operations used by app.py\<close>

text \<open>
  A Python \<open>str\<close> is modelled as a \<open>string\<close>; its characters are the code points below
  256.  An exception is a value: \<open>PyException r\<close> is an instance of \<open>Exception\<close>,
  \<open>PyBaseException r\<close> an instance of \<open>BaseException\<close> outside \<open>Exception\<close>
  (\<open>SystemExit\<close>, \<open>KeyboardInterrupt\<close>); \<open>r\<close> is what \<open>repr(e)\<close> prints.
  \<open>FileNotFoundError\<close>, the one class a handler of app.py names, is an \<open>Exception\<close>
  of its own.
\<close>

datatype py_error = PyException string | PyBaseException string | FileNotFoundError

fun py_repr :: "py_error \<Rightarrow> string" where
  "py_repr (PyException r) = r"
| "py_repr (PyBaseException r) = r"
| "py_repr FileNotFoundError = ''FileNotFoundError(2, No such file or directory)''"

text \<open>
  A call either returns or raises; the objects it mutated before raising keep their new
  values, so both outcomes carry the state.
\<close>

datatype 'a outcome = Returns 'a | Raises py_error 'a

fun state_of :: "'a outcome \<Rightarrow> 'a" where
  "state_of (Returns s) = s"
| "state_of (Raises x s) = s"

fun and_then :: "'a outcome \<Rightarrow> ('a \<Rightarrow> 'a outcome) \<Rightarrow> 'a outcome" where
  "and_then (Returns s) k = k s"
| "and_then (Raises x s) k = Raises x s"

definition code_point :: "char \<Rightarrow> nat" where
  "code_point c = of_char c"

definition newline :: char where
  "newline = CHR 0x0A"

text \<open>\<open>str.isspace\<close> and the regular expression class \<open>\s\<close> on code points below 256.\<close>

definition py_isspace :: "char \<Rightarrow> bool" where
  "py_isspace c = (code_point c \<in> {9, 10, 11, 12, 13, 28, 29, 30, 31, 32, 133, 160})"

text \<open>The regular expression class \<open>\d\<close>.\<close>

definition py_isdigit :: "char \<Rightarrow> bool" where
  "py_isdigit c = (48 \<le> code_point c \<and> code_point c \<le> 57)"

text \<open>The regular expression class \<open>\w\<close>: alphanumeric code points and the underscore.\<close>

definition py_isword :: "char \<Rightarrow> bool" where
  "py_isword c =
     (let n = code_point c in
        (48 \<le> n \<and> n \<le> 57) \<or> (65 \<le> n \<and> n \<le> 90) \<or> n = 95 \<or> (97 \<le> n \<and> n \<le> 122)
        \<or> n = 170 \<or> n = 178 \<or> n = 179 \<or> n = 181 \<or> n = 185 \<or> n = 186
        \<or> (188 \<le> n \<and> n \<le> 190) \<or> (192 \<le> n \<and> n \<le> 214)
        \<or> (216 \<le> n \<and> n \<le> 246) \<or> (248 \<le> n \<and> n \<le> 255))"

text \<open>\<open>s.strip()\<close>: whitespace removed at both ends.\<close>

definition strip :: "string \<Rightarrow> string" where
  "strip s = rev (dropWhile py_isspace (rev (dropWhile py_isspace s)))"

text \<open>\<open>s.startswith(p)\<close>.\<close>

fun startswith :: "string \<Rightarrow> string \<Rightarrow> bool" where
  "startswith s [] = True"
| "startswith [] (p # ps) = False"
| "startswith (c # cs) (p # ps) = (c = p \<and> startswith cs ps)"

text \<open>\<open>p in s\<close> for strings: \<open>p\<close> occurs in \<open>s\<close> as a contiguous substring.\<close>

fun contains :: "string \<Rightarrow> string \<Rightarrow> bool" where
  "contains [] p = (p = [])"
| "contains (c # cs) p = (startswith (c # cs) p \<or> contains cs p)"

text \<open>\<open>s.index(c)\<close> for a one-character \<open>c\<close>: \<open>None\<close> stands for the ValueError.\<close>

fun index :: "string \<Rightarrow> char \<Rightarrow> nat option" where
  "index [] c = None"
| "index (x # xs) c = (if x = c then Some 0 else map_option Suc (index xs c))"

text \<open>\<open>s[i:j]\<close> for indices that are not negative, and \<open>s[i:]\<close>.\<close>

definition slice :: "string \<Rightarrow> nat \<Rightarrow> nat \<Rightarrow> string" where
  "slice s i j = take (j - i) (drop i s)"

definition slice_from :: "string \<Rightarrow> nat \<Rightarrow> string" where
  "slice_from s i = drop i s"

text \<open>\<open>sep.join(xs)\<close>.\<close>

fun join :: "string \<Rightarrow> string list \<Rightarrow> string" where
  "join sep [] = []"
| "join sep [x] = x"
| "join sep (x # y # ys) = x @ sep @ join sep (y # ys)"

text \<open>\<open>str(n)\<close> for a number that is not negative, as the f-string prints \<open>id(self)\<close>.\<close>

fun str_nat :: "nat \<Rightarrow> string" where
  "str_nat n =
     (if n < 10 then [char_of (48 + n)]
      else str_nat (n div 10) @ [char_of (48 + n mod 10)])"

declare str_nat.simps [simp del]

section \<open>Regular expressions\<close>

text \<open>
  The fragment of Python's \<open>re\<close> syntax that \<open>URL_RE\<close> is written in: literals and
  character classes, sequence, alternation, \<open>?\<close>, \<open>*\<close> and \<open>+\<close>.  \<open>pattern.match(s)\<close>
  succeeds when some prefix of \<open>s\<close> is in the language of the pattern; the matcher decides
  this with derivatives.
\<close>

datatype rexp =
    Never
  | Eps
  | Cls "char \<Rightarrow> bool"
  | Seq rexp rexp
  | Alt rexp rexp
  | Star rexp

fun nullable :: "rexp \<Rightarrow> bool" where
  "nullable Never = False"
| "nullable Eps = True"
| "nullable (Cls P) = False"
| "nullable (Seq r s) = (nullable r \<and> nullable s)"
| "nullable (Alt r s) = (nullable r \<or> nullable s)"
| "nullable (Star r) = True"

fun deriv :: "char \<Rightarrow> rexp \<Rightarrow> rexp" where
  "deriv c Never = Never"
| "deriv c Eps = Never"
| "deriv c (Cls P) = (if P c then Eps else Never)"
| "deriv c (Seq r s) =
     (if nullable r then Alt (Seq (deriv c r) s) (deriv c s) else Seq (deriv c r) s)"
| "deriv c (Alt r s) = Alt (deriv c r) (deriv c s)"
| "deriv c (Star r) = Seq (deriv c r) (Star r)"

fun re_match :: "rexp \<Rightarrow> string \<Rightarrow> bool" where
  "re_match r [] = nullable r"
| "re_match r (c # cs) = (nullable r \<or> re_match (deriv c r) cs)"

fun Lit :: "string \<Rightarrow> rexp" where
  "Lit [] = Eps"
| "Lit (c # cs) = Seq (Cls (\<lambda>x. x = c)) (Lit cs)"

definition Opt :: "rexp \<Rightarrow> rexp" where
  "Opt r = Alt r Eps"

definition Plus :: "rexp \<Rightarrow> rexp" where
  "Plus r = Seq r (Star r)"

text \<open>
  The class \<open>[\w#!:.?+=&%@!-/]\<close> of the last group: word characters, the listed
  punctuation, and the range from \<open>!\<close> to \<open>/\<close>.
\<close>

definition url_path_char :: "char \<Rightarrow> bool" where
  "url_path_char c =
     (py_isword c \<or> c \<in> set ''#!:.?+=&%@'' \<or> (33 \<le> code_point c \<and> code_point c \<le> 47))"

text \<open>
  \<^verbatim>\<open>URL_RE = re.compile(r"(ftp|http|https)://(\w+:?\w*@)?(\S+)(:\d+)?(/|/([\w#!:.?+=&%@!-/]))?")\<close>
\<close>

definition URL_RE :: rexp where
  "URL_RE =
     Seq (Alt (Lit ''ftp'') (Alt (Lit ''http'') (Lit ''https'')))
    (Seq (Lit ''://'')
    (Seq (Opt (Seq (Plus (Cls py_isword))
              (Seq (Opt (Lit '':''))
              (Seq (Star (Cls py_isword)) (Lit ''@'')))))
    (Seq (Plus (Cls (\<lambda>c. \<not> py_isspace c)))
    (Seq (Opt (Seq (Lit '':'') (Plus (Cls py_isdigit))))
         (Opt (Alt (Lit ''/'') (Seq (Lit ''/'') (Cls url_path_char))))))))"

section \<open>External collaborators\<close>

text \<open>
  The libraries app.py calls are parameters of the model.  A \<open>response\<close> is what
  \<open>requests.get\<close> returns, seen through the attributes the code reads; a \<open>tag\<close> is an
  element of a BeautifulSoup tree, seen through \<open>tag.name\<close>, \<open>str(tag)\<close> and \<open>tag.text\<close>;
  a \<open>soup\<close> is a parsed document, seen through \<open>find_all()\<close> (every element, in document
  order), \<open>prettify()\<close> and \<open>.text\<close>.
\<close>

record response =
  resp_status_code :: int
  resp_text :: string
  resp_repr :: string

record tag =
  tag_name :: string
  tag_str :: string
  tag_text :: string

record soup =
  find_all :: "tag list"
  prettify :: string
  soup_text :: string

text \<open>
  A compiled transform is a Python callable of one argument: applied to the displayed
  text it returns the new text, or raises (returning \<open>None\<close> shows an empty text;
  returning anything else that is not a \<open>str\<close> makes \<open>setPlainText\<close> raise inside
  the same guarded block).
\<close>

type_synonym transform = "string \<Rightarrow> py_error + string"

section \<open>State\<close>

text \<open>
  The read-only text field of a ScrollDisplay: \<open>setText\<close> stores markup,
  \<open>setPlainText\<close> plain text.
\<close>

datatype label_content = Rich string | Plain string

record scroll_display =
  output_option :: int
  display_func_transform :: "transform option"
  label :: label_content

text \<open>
  What an EntityBox reaches outside itself: the status bar of its parent window (every
  message shown, oldest first) and the network (every URL requested, oldest first).
  \<open>next_id\<close> is the \<open>id()\<close> the next EntityBox will have.
\<close>

record world =
  status_bar :: "string list"
  requested :: "string list"
  next_id :: nat

text \<open>
  The data attributes of \<open>EntityBox.__init__\<close> under their own names, then the state of
  the widgets the methods read or write: the three inputs, the number of slots connected to
  \<open>input_transform.textChanged\<close>, the two radio groups (\<open>rdo_with_css\<close> against
  \<open>rdo_with_text\<close>; \<open>rdo_html\<close>, \<open>rdo_clean\<close>, \<open>rdo_raw\<close> as 0, 1, 2), the buttons and
  the visibility of form row 4, which holds the transform input.  An input holds its text as
  the widget hands it back.
\<close>

record entity =
  self_id :: nat
  status_code :: int
  resp_raw :: "string option"
  resp_soup :: "soup option"
  resp_html_full :: "string option"
  resp_html :: "string option"
  is_with_css :: bool
  func_transform :: "transform option"
  is_with_transform :: bool
  display :: scroll_display
  input_url :: string
  input_filter :: string
  input_filter_enabled :: bool
  input_transform :: string
  input_transform_receivers :: nat
  rdo_with_css_checked :: bool
  rdo_display_checked :: nat
  btn_fetch_text :: string
  btn_transform_checked :: bool
  form_row4_visible :: bool

section \<open>The libraries\<close>

text \<open>
  \<open>exec(source)\<close> runs the statements of the source with \<open>self\<close> in scope: besides
  defining the function it can change the EntityBox, show status messages and make requests
  before it returns or raises.  \<open>defined\<close> is the function found under the new name
  afterwards, or the exception raised; \<open>self_after\<close> is the EntityBox as the statements
  left it; \<open>shown\<close> and \<open>fetched\<close> are the messages they showed and the URLs they
  requested, in order.
\<close>

record exec_outcome =
  defined :: "py_error + transform"
  self_after :: entity
  shown :: "string list"
  fetched :: "string list"

text \<open>
  \<^item> \<open>async_fetch\<close>: \<open>aio.async_fetch(url).result()\<close>, given the URLs requested before;
  \<^item> \<open>BeautifulSoup\<close>: \<open>BeautifulSoup(markup, 'lxml')\<close>;
  \<^item> \<open>re_compile\<close>: \<open>re.compile(pattern)\<close>, which raises on a malformed pattern and
    otherwise gives the test \<open>find_all(class_=...)\<close> applies to each element;
  \<^item> \<open>exec\<close>: \<open>exec(source)\<close> followed by \<open>locals()[fn_sig_new]\<close>, run on the
    EntityBox and its surroundings;
  \<^item> \<open>html_to_plain\<close>: the plain text Qt reports for a document set with \<open>setText\<close>.
\<close>

record env =
  async_fetch :: "string list \<Rightarrow> string \<Rightarrow> py_error + response"
  BeautifulSoup :: "string \<Rightarrow> soup"
  re_compile :: "string \<Rightarrow> py_error + (tag \<Rightarrow> bool)"
  exec :: "string \<Rightarrow> entity \<Rightarrow> world \<Rightarrow> exec_outcome"
  html_to_plain :: "string \<Rightarrow> string"

section \<open>ScrollDisplay\<close>

text \<open>
  \<open>document().toPlainText()\<close> of a text set with \<open>setPlainText\<close>: Qt hands a carriage
  return, alone or before a newline, back as a newline, and a no-break space as a space.
\<close>

fun qt_plain_char :: "char \<Rightarrow> char" where
  "qt_plain_char c =
     (if c = CHR 0x0D then newline else if c = CHR 0xA0 then CHR '' '' else c)"

fun qt_plain :: "string \<Rightarrow> string" where
  "qt_plain [] = []"
| "qt_plain [c] = [qt_plain_char c]"
| "qt_plain (c # d # cs) =
     (if c = CHR 0x0D \<and> d = newline then newline # qt_plain cs
      else qt_plain_char c # qt_plain (d # cs))"

fun toPlainText :: "env \<Rightarrow> label_content \<Rightarrow> string" where
  "toPlainText env (Rich h) = html_to_plain env h"
| "toPlainText env (Plain s) = qt_plain s"

definition set_transform :: "transform option \<Rightarrow> scroll_display \<Rightarrow> scroll_display" where
  "set_transform func d = d\<lparr>display_func_transform := func\<rparr>"

text \<open>
  \<open>re.sub('[cls]+', repl, s)\<close> for a character class: every maximal run of characters
  of the class is replaced by \<open>repl\<close>.
\<close>

function re_sub_runs :: "(char \<Rightarrow> bool) \<Rightarrow> string \<Rightarrow> string \<Rightarrow> string" where
  "re_sub_runs P repl [] = []"
| "re_sub_runs P repl (c # cs) =
     (if P c then repl @ re_sub_runs P repl (dropWhile P cs)
      else c # re_sub_runs P repl cs)"
  by pat_completeness auto
termination
  by (relation "measure (\<lambda>(P, repl, s). length s)")
     (auto simp: length_dropWhile_le less_Suc_eq_le)

text \<open>The class \<^verbatim>\<open>[\n| ]\<close>: the newline, the vertical bar and the space.\<close>

definition clean_class :: "char \<Rightarrow> bool" where
  "clean_class c = (c = newline \<or> c = CHR ''|'' \<or> c = CHR '' '')"

definition TypeError_None :: py_error where
  "TypeError_None = PyException ''TypeError''"

text \<open>
  The first half of \<open>set_text\<close>: the chain on \<open>output_option\<close>.  \<open>html\<close> is \<open>None\<close> when
  the caller passes an unset \<open>resp_html\<close>: \<open>setText\<close> and \<open>setPlainText\<close> take it
  for an empty text, BeautifulSoup raises a TypeError.
\<close>

definition show_option :: "env \<Rightarrow> string option \<Rightarrow> scroll_display \<Rightarrow> scroll_display outcome" where
  "show_option env html d =
     (if output_option d = 0 then
        (case html of None \<Rightarrow> Returns (d\<lparr>label := Rich []\<rparr>)
         | Some h \<Rightarrow> Returns (d\<lparr>label := Rich h\<rparr>))
      else if output_option d = 1 then
        (case html of None \<Rightarrow> Raises TypeError_None d
         | Some h \<Rightarrow>
             Returns (d\<lparr>label :=
               Plain (re_sub_runs clean_class [newline] (soup_text (BeautifulSoup env h)))\<rparr>))
      else if output_option d = 2 then
        (case html of None \<Rightarrow> Returns (d\<lparr>label := Plain []\<rparr>)
         | Some h \<Rightarrow> Returns (d\<lparr>label := Plain h\<rparr>))
      else Returns d)"

text \<open>The second half: the guarded call of the transform on the text now displayed.\<close>

definition with_transform :: "env \<Rightarrow> scroll_display \<Rightarrow> scroll_display outcome" where
  "with_transform env d =
     (case display_func_transform d of
        None \<Rightarrow> Returns d
      | Some f \<Rightarrow>
          (case f (toPlainText env (label d)) of
             Inr text \<Rightarrow> Returns (d\<lparr>label := Plain text\<rparr>)
           | Inl e \<Rightarrow> Returns (d\<lparr>label := Plain (py_repr e)\<rparr>)))"

definition set_text :: "env \<Rightarrow> string option \<Rightarrow> scroll_display \<Rightarrow> scroll_display outcome" where
  "set_text env html d = and_then (show_option env html d) (with_transform env)"

section \<open>EntityBox\<close>

definition set_status :: "string \<Rightarrow> world \<Rightarrow> world" where
  "set_status msg w = w\<lparr>status_bar := status_bar w @ [msg]\<rparr>"

definition ScrollDisplay_init :: scroll_display where
  "ScrollDisplay_init =
     \<lparr>output_option = 0, display_func_transform = None, label = Plain []\<rparr>"

definition EntityBox_init :: "nat \<Rightarrow> entity" where
  "EntityBox_init i =
     \<lparr>self_id = i,
      status_code = - 1,
      resp_raw = None,
      resp_soup = None,
      resp_html_full = None,
      resp_html = None,
      is_with_css = True,
      func_transform = None,
      is_with_transform = False,
      display = ScrollDisplay_init,
      input_url = ''https://'',
      input_filter = [],
      input_filter_enabled = False,
      input_transform = [],
      input_transform_receivers = 0,
      rdo_with_css_checked = True,
      rdo_display_checked = 0,
      btn_fetch_text = ''Fetch'',
      btn_transform_checked = False,
      form_row4_visible = False\<rparr>"

definition TAG_EXCLUDE :: "string list" where
  "TAG_EXCLUDE =
     [''script'', ''meta'', ''head'', ''noscript'', ''svg'', ''html'', ''aside'', ''main'']"

subsection \<open>requests_extract\<close>

text \<open>
  The body of both \<open>for\<close> loops: a tag that passes the test of its branch is appended to
  \<open>repo_html\<close> unless its markup is already there.
\<close>

fun repo_html_loop :: "(tag \<Rightarrow> bool) \<Rightarrow> tag list \<Rightarrow> string list \<Rightarrow> string list" where
  "repo_html_loop keep [] repo = repo"
| "repo_html_loop keep (t # ts) repo =
     repo_html_loop keep ts
       (if keep t then (if tag_str t \<notin> set repo then repo @ [tag_str t] else repo)
        else repo)"

text \<open>The AttributeError of \<open>self.resp_soup.find_all\<close> when \<open>resp_soup\<close> is \<open>None\<close>.\<close>

definition AttributeError_find_all :: py_error where
  "AttributeError_find_all =
     PyException (''AttributeError('' @ [CHR 0x22, CHR 0x27] @ ''NoneType'' @ [CHR 0x27]
       @ '' object has no attribute '' @ [CHR 0x27] @ ''find_all'' @ [CHR 0x27, CHR 0x22]
       @ '')'')"

text \<open>
  The \<open>try\<close> block up to the \<open>join\<close>: the list \<open>repo_html\<close> of the branch taken, or the
  exception raised on the way.
\<close>

definition repo_html :: "env \<Rightarrow> entity \<Rightarrow> py_error + string list" where
  "repo_html env e =
     (if is_with_css e then
        (case resp_soup e of
           None \<Rightarrow> Inl AttributeError_find_all
         | Some sp \<Rightarrow>
             (case re_compile env (input_filter e) of
                Inl x \<Rightarrow> Inl x
              | Inr class_matches \<Rightarrow>
                  Inr (repo_html_loop (\<lambda>t. tag_name t \<notin> set TAG_EXCLUDE)
                         (filter class_matches (find_all sp)) [])))
      else
        (case resp_soup e of
           None \<Rightarrow> Inl AttributeError_find_all
         | Some sp \<Rightarrow>
             Inr (repo_html_loop
                    (\<lambda>t. tag_name t \<notin> set TAG_EXCLUDE \<and> contains (tag_text t) (input_filter e))
                    (find_all sp) [])))"

definition br_newline :: string where
  "br_newline = ''<br>'' @ [newline]"

definition resp_html_sub :: "env \<Rightarrow> entity \<Rightarrow> string" where
  "resp_html_sub env e =
     (case repo_html env e of
        Inr repo \<Rightarrow> join br_newline repo
      | Inl x \<Rightarrow> py_repr x)"

definition requests_extract :: "env \<Rightarrow> entity \<Rightarrow> entity" where
  "requests_extract env e =
     (if status_code e \<noteq> 200 then e
      else if length (input_filter e) = 0 then e\<lparr>resp_html := resp_html_full e\<rparr>
      else e\<lparr>resp_html := Some (resp_html_sub env e)\<rparr>)"

subsection \<open>send_to_display\<close>

definition send_to_display :: "env \<Rightarrow> entity \<Rightarrow> entity outcome" where
  "send_to_display env e =
     (if status_code e \<noteq> 200 then Returns e
      else
        (let e1 = requests_extract env e in
           case set_text env (resp_html e1) (display e1) of
             Returns d \<Rightarrow> Returns (e1\<lparr>display := d\<rparr>)
           | Raises x d \<Rightarrow> Raises x (e1\<lparr>display := d\<rparr>)))"

text \<open>An outcome on the entity alone, as an outcome on the entity and its surroundings.\<close>

fun in_world :: "world \<Rightarrow> entity outcome \<Rightarrow> (entity \<times> world) outcome" where
  "in_world w (Returns e) = Returns (e, w)"
| "in_world w (Raises x e) = Raises x (e, w)"

subsection \<open>Transform\<close>

definition unset_display_transform :: "entity \<Rightarrow> entity" where
  "unset_display_transform e =
     e\<lparr>func_transform := None, display := set_transform None (display e)\<rparr>"

definition set_display_transform :: "entity \<Rightarrow> world \<Rightarrow> entity \<times> world" where
  "set_display_transform e w =
     (e\<lparr>display := set_transform (func_transform e) (display e)\<rparr>,
      set_status ''Transform set and ready.'' w)"

definition err_msg :: string where
  "err_msg = ''Transformation must be a Python function starting with ''
     @ ''def f(x): and returns a value, input is malformed''"

definition ValueError_index :: py_error where
  "ValueError_index = PyException ''ValueError(substring not found)''"

text \<open>
  The text handed to \<open>exec\<close>: the argument list between the first \<open>(\<close> and the first
  \<open>)\<close> and everything after the first newline, under the name \<open>_F<id(self)>\<close>; a
  missing character makes \<open>str.index\<close> raise.
\<close>

definition fn_reconstructed :: "nat \<Rightarrow> string \<Rightarrow> py_error + string" where
  "fn_reconstructed sid fn =
     (case index fn (CHR ''('') of
        None \<Rightarrow> Inl ValueError_index
      | Some i \<Rightarrow>
          (case index fn (CHR '')'') of
             None \<Rightarrow> Inl ValueError_index
           | Some j \<Rightarrow>
               (case index fn newline of
                  None \<Rightarrow> Inl ValueError_index
                | Some k \<Rightarrow>
                    Inr (''def '' @ (''_F'' @ str_nat sid) @ ''('' @ slice fn (i + 1) j
                         @ ''):'' @ [newline] @ slice_from fn (k + 1)))))"

text \<open>
  The lines of the \<open>try\<close> block from \<open>fn_sig_new\<close> to \<open>locals()[fn_sig_new]\<close>:
  the function \<open>exec\<close> defined, or the exception raised on the way, with the EntityBox
  and its surroundings as they are by then (untouched when \<open>str.index\<close> raised, since
  \<open>exec\<close> was not reached).
\<close>

definition compile_transform ::
    "env \<Rightarrow> entity \<Rightarrow> world \<Rightarrow> string \<Rightarrow> (py_error + transform) \<times> entity \<times> world" where
  "compile_transform env e w fn =
     (case fn_reconstructed (self_id e) fn of
        Inl x \<Rightarrow> (Inl x, e, w)
      | Inr source \<Rightarrow>
          (let r = exec env source e w
           in (defined r, self_after r,
               w\<lparr>status_bar := status_bar w @ shown r,
                 requested := requested w @ fetched r\<rparr>)))"

text \<open>\<open>lambda x: x\<close>.\<close>

definition lambda_x_x :: transform where
  "lambda_x_x x = Inr x"

text \<open>
  \<open>except Exception as e\<close>: an \<open>Exception\<close> ends in the handler, which reports
  \<open>err_msg\<close> and sets \<open>func_transform\<close> to \<open>lambda x: x\<close>; anything else propagates.
\<close>

fun except_Exception :: "py_error \<Rightarrow> entity \<Rightarrow> world \<Rightarrow> (entity \<times> world) outcome" where
  "except_Exception (PyException r) e w =
     Returns (e\<lparr>func_transform := Some lambda_x_x\<rparr>, set_status err_msg w)"
| "except_Exception FileNotFoundError e w =
     Returns (e\<lparr>func_transform := Some lambda_x_x\<rparr>, set_status err_msg w)"
| "except_Exception (PyBaseException r) e w = Raises (PyBaseException r) (e, w)"

definition get_from_input_and_set_transform ::
    "env \<Rightarrow> entity \<Rightarrow> world \<Rightarrow> (entity \<times> world) outcome" where
  "get_from_input_and_set_transform env e w =
     (let fn = strip (input_transform e);
          w1 = (if \<not> startswith fn ''def'' \<or> \<not> contains fn ''return''
                then set_status err_msg w else w)
      in case compile_transform env e w1 fn of
           (Inl x, e1, w2) \<Rightarrow> except_Exception x e1 w2
         | (Inr f, e1, w2) \<Rightarrow>
             (case set_display_transform (e1\<lparr>func_transform := Some f\<rparr>) w2 of
                (e2, w3) \<Rightarrow>
                  (case send_to_display env e2 of
                     Returns e3 \<Rightarrow> Returns (e3, w3)
                   | Raises x e3 \<Rightarrow> except_Exception x e3 w3)))"

definition enable_transform ::
    "env \<Rightarrow> bool \<Rightarrow> entity \<Rightarrow> world \<Rightarrow> (entity \<times> world) outcome" where
  "enable_transform env enable e w =
     (if enable then
        and_then
          (get_from_input_and_set_transform env
             (e\<lparr>is_with_transform := True, form_row4_visible := True,
                input_transform_receivers := Suc (input_transform_receivers e)\<rparr>) w)
          (\<lambda>(e1, w1). Returns (e1, set_status ''Transform enabled.'' w1))
      else
        Returns
          (unset_display_transform
             (e\<lparr>is_with_transform := False, form_row4_visible := False,
                input_transform_receivers :=
                  (if input_transform_receivers e > 0 then 0
                   else input_transform_receivers e)\<rparr>),
           set_status ''Transform disabled.'' w))"

subsection \<open>requests_get\<close>

definition invalid_url_msg :: string where
  "invalid_url_msg = ''The provided URL is invalid. It must starts with [ http(s):// ].''"

definition requests_get :: "env \<Rightarrow> entity \<Rightarrow> world \<Rightarrow> (entity \<times> world) outcome" where
  "requests_get env e w =
     (if \<not> re_match URL_RE (input_url e) then Returns (e, set_status invalid_url_msg w)
      else
        (let w1 = w\<lparr>requested := requested w @ [input_url e]\<rparr> in
           case async_fetch env (requested w) (input_url e) of
             Inl x \<Rightarrow> Returns (e, set_status (py_repr x) w1)
           | Inr resp \<Rightarrow>
               if resp_status_code resp = 200 then
                 and_then (enable_transform env False e w1)
                   (\<lambda>(e1, w2).
                      let sp = BeautifulSoup env (resp_text resp);
                          e2 = e1\<lparr>status_code := resp_status_code resp,
                                  resp_raw := Some (resp_text resp),
                                  resp_soup := Some sp,
                                  resp_html_full := Some (prettify sp),
                                  btn_fetch_text := ''Re-fetch'',
                                  input_filter_enabled := True\<rparr>
                      in and_then (in_world w2 (send_to_display env e2))
                           (\<lambda>(e3, w3). Returns (e3, set_status ''URL Fetch succeeded.'' w3)))
               else Returns (e, set_status (resp_repr resp) w1)))"

subsection \<open>Configuration\<close>

text \<open>
  One persisted record: the dictionary \<open>to_config\<close> builds and \<open>from_config\<close> reads
  with \<open>cfg.get(key, default)\<close>; \<open>None\<close> is a missing key.
\<close>

record config =
  cfg_url :: "string option"
  cfg_filter :: "string option"
  cfg_is_with_css :: "bool option"
  cfg_output_option :: "int option"
  cfg_is_with_transform :: "bool option"
  cfg_transform :: "string option"

fun get :: "'a option \<Rightarrow> 'a \<Rightarrow> 'a" where
  "get None dflt = dflt"
| "get (Some v) dflt = v"


text \<open>
  \<open>input_filter.setText\<close>: \<open>textChanged\<close> is connected to \<open>send_to_display\<close> and fires
  when the text differs from the one held.
\<close>

definition input_filter_setText ::
    "env \<Rightarrow> string \<Rightarrow> entity \<Rightarrow> world \<Rightarrow> (entity \<times> world) outcome" where
  "input_filter_setText env s e w =
     (if s = input_filter e then Returns (e, w)
      else in_world w (send_to_display env (e\<lparr>input_filter := s\<rparr>)))"

text \<open>
  \<open>input_transform.setPlainText\<close>: \<open>textChanged\<close> runs
  \<open>get_from_input_and_set_transform\<close> once for every connection \<open>enable_transform\<close> made.
\<close>

fun textChanged_emit ::
    "env \<Rightarrow> nat \<Rightarrow> entity \<Rightarrow> world \<Rightarrow> (entity \<times> world) outcome" where
  "textChanged_emit env 0 e w = Returns (e, w)"
| "textChanged_emit env (Suc n) e w =
     and_then (get_from_input_and_set_transform env e w)
       (\<lambda>(e1, w1). textChanged_emit env n e1 w1)"

definition input_transform_setPlainText ::
    "env \<Rightarrow> string \<Rightarrow> entity \<Rightarrow> world \<Rightarrow> (entity \<times> world) outcome" where
  "input_transform_setPlainText env s e w =
     textChanged_emit env (input_transform_receivers e) (e\<lparr>input_transform := s\<rparr>) w"

definition from_config ::
    "env \<Rightarrow> config \<Rightarrow> entity \<Rightarrow> world \<Rightarrow> (entity \<times> world) outcome" where
  "from_config env cfg e w =
     and_then
       (input_filter_setText env (get (cfg_filter cfg) [])
          (e\<lparr>input_url := get (cfg_url cfg) []\<rparr>) w)
       (\<lambda>(e1, w1).
          and_then
            (input_transform_setPlainText env (get (cfg_transform cfg) [])
               (e1\<lparr>is_with_css := get (cfg_is_with_css cfg) True,
                   display := (display e1)\<lparr>output_option := get (cfg_output_option cfg) 0\<rparr>,
                   is_with_transform := get (cfg_is_with_transform cfg) False\<rparr>) w1)
            (\<lambda>(e2, w2).
               let e3 = e2\<lparr>rdo_with_css_checked := is_with_css e2\<rparr>;
                   e4 = (if output_option (display e3) = 0 then e3\<lparr>rdo_display_checked := 0\<rparr>
                         else if output_option (display e3) = 1
                           then e3\<lparr>rdo_display_checked := 1\<rparr>
                         else if output_option (display e3) = 2
                           then e3\<lparr>rdo_display_checked := 2\<rparr>
                         else e3)
               in and_then (requests_get env e4 w2)
                    (\<lambda>(e5, w5).
                       if is_with_transform e5
                       then enable_transform env True (e5\<lparr>btn_transform_checked := True\<rparr>) w5
                       else Returns (e5, w5))))"

section \<open>MainWindow\<close>

record main_window =
  list_entity_box :: "entity list"

definition add_display :: "main_window \<Rightarrow> world \<Rightarrow> main_window \<times> world" where
  "add_display mw w =
     (mw\<lparr>list_entity_box := list_entity_box mw @ [EntityBox_init (next_id w)]\<rparr>,
      (set_status ''Added new widget'' w)\<lparr>next_id := Suc (next_id w)\<rparr>)"

definition rmv_display :: "main_window \<Rightarrow> world \<Rightarrow> main_window \<times> world" where
  "rmv_display mw w =
     (if length (list_entity_box mw) \<noteq> 0
      then (mw\<lparr>list_entity_box := butlast (list_entity_box mw)\<rparr>,
            set_status ''Removed bottom most widget'' w)
      else (mw, set_status ''Cannot remove widget'' w))"

fun rmv_display_times :: "nat \<Rightarrow> main_window \<Rightarrow> world \<Rightarrow> main_window \<times> world" where
  "rmv_display_times 0 mw w = (mw, w)"
| "rmv_display_times (Suc n) mw w =
     (case rmv_display mw w of (mw1, w1) \<Rightarrow> rmv_display_times n mw1 w1)"

definition rmv_all_display :: "main_window \<Rightarrow> world \<Rightarrow> main_window \<times> world" where
  "rmv_all_display mw w =
     (case rmv_display_times (length (list_entity_box mw)) mw w of
        (mw1, w1) \<Rightarrow> (mw1, set_status ''Removed all widgets'' w1))"

text \<open>
  What \<open>open("./config.json")\<close> and \<open>json.load\<close> find: no file, content that
  \<open>json.load\<close> rejects, or a JSON object whose values are persisted records (the keys
  and records in the order the dictionary iterates them).
\<close>

datatype config_file =
    FileNotFound
  | Malformed
  | Parsed "(string \<times> config) list"

definition UnboundLocalError_cfg :: py_error where
  "UnboundLocalError_cfg = PyException ''UnboundLocalError(cfg)''"

text \<open>
  One round of \<open>for key in cfg\<close>: \<open>self.add_display().from_config(cfg_)\<close>.  The new
  EntityBox is the last of the list and \<open>from_config\<close> works on it in place.
\<close>

definition load_one :: "env \<Rightarrow> config \<Rightarrow> main_window \<Rightarrow> world \<Rightarrow> (main_window \<times> world) outcome" where
  "load_one env cfg mw w =
     (case add_display mw w of
        (mw1, w1) \<Rightarrow>
          (case from_config env cfg (last (list_entity_box mw1)) w1 of
             Returns (e, w2) \<Rightarrow>
               Returns (mw1\<lparr>list_entity_box := butlast (list_entity_box mw1) @ [e]\<rparr>, w2)
           | Raises x (e, w2) \<Rightarrow>
               Raises x (mw1\<lparr>list_entity_box := butlast (list_entity_box mw1) @ [e]\<rparr>, w2)))"

fun load_each ::
    "env \<Rightarrow> (string \<times> config) list \<Rightarrow> main_window \<Rightarrow> world \<Rightarrow> (main_window \<times> world) outcome" where
  "load_each env [] mw w = Returns (mw, w)"
| "load_each env ((key, cfg) # rest) mw w =
     and_then (load_one env cfg mw w) (\<lambda>(mw1, w1). load_each env rest mw1 w1)"

definition not_found_msg :: string where
  "not_found_msg =
     ''config.json not found in current working directory. Check if file exists.''"

definition corrupted_msg :: string where
  "corrupted_msg =
     ''config.json may be corrupted. Try recreating proper file with Save Config.''"

text \<open>
  \<open>for key in cfg\<close>.  \<open>cfg\<close> is a local variable bound by \<open>cfg = json.load(f)\<close>
  only: when \<open>json.load\<close> raised it is unbound (\<open>None\<close> here) and reading it raises
  UnboundLocalError.
\<close>

fun for_key_in_cfg ::
    "env \<Rightarrow> (string \<times> config) list option \<Rightarrow> main_window \<Rightarrow> world
       \<Rightarrow> (main_window \<times> world) outcome" where
  "for_key_in_cfg env None mw w = Raises UnboundLocalError_cfg (mw, w)"
| "for_key_in_cfg env (Some items) mw w = load_each env items mw w"

text \<open>
  The body of the outer \<open>try\<close>: \<open>open\<close> raises FileNotFoundError when there is no
  file; the handler of the inner \<open>try\<close> reports \<open>corrupted_msg\<close> and control goes on
  to the loop.
\<close>

definition open_and_load ::
    "env \<Rightarrow> config_file \<Rightarrow> main_window \<Rightarrow> world \<Rightarrow> (main_window \<times> world) outcome" where
  "open_and_load env file mw w =
     (case file of
        FileNotFound \<Rightarrow> Raises FileNotFoundError (mw, w)
      | Malformed \<Rightarrow> for_key_in_cfg env None mw (set_status corrupted_msg w)
      | Parsed items \<Rightarrow> for_key_in_cfg env (Some items) mw w)"

text \<open>\<open>except FileNotFoundError\<close>: every other exception propagates.\<close>

fun except_FileNotFoundError ::
    "(main_window \<times> world) outcome \<Rightarrow> (main_window \<times> world) outcome" where
  "except_FileNotFoundError (Raises FileNotFoundError (mw, w)) =
     Returns (mw, set_status not_found_msg w)"
| "except_FileNotFoundError r = r"

definition load_config ::
    "env \<Rightarrow> config_file \<Rightarrow> main_window \<Rightarrow> world \<Rightarrow> (main_window \<times> world) outcome" where
  "load_config env file mw w =
     (case rmv_all_display mw w of
        (mw1, w1) \<Rightarrow>
          and_then (except_FileNotFoundError (open_and_load env file mw1 w1))
            (\<lambda>(mw2, w2). Returns (mw2, set_status ''Load config succeeded.'' w2)))"

section \<open>Sample surroundings\<close>

text \<open>
  A concrete page, its parsed tree and concrete libraries, for the worked examples below: the
  first request is answered with status 200 and the page, every later request fails to
  connect; the page holds a \<open>main\<close> element around three \<open>div\<close> elements, the
  first and the last of them alike.
\<close>

definition sample_url :: string where
  "sample_url = ''https://example.test/page''"

definition sample_page :: string where
  "sample_page =
     ''<main class=a><div class=a>X</div><div class=b>Y</div><div class=a>X</div></main>''"

definition tag_html :: tag where
  "tag_html = \<lparr>tag_name = ''html'',
     tag_str = ''<html><body>'' @ sample_page @ ''</body></html>'',
     tag_text = ''XYX''\<rparr>"

definition tag_body :: tag where
  "tag_body = \<lparr>tag_name = ''body'',
     tag_str = ''<body>'' @ sample_page @ ''</body>'',
     tag_text = ''XYX''\<rparr>"

definition tag_main :: tag where
  "tag_main = \<lparr>tag_name = ''main'', tag_str = sample_page, tag_text = ''XYX''\<rparr>"

definition tag_div_a :: tag where
  "tag_div_a = \<lparr>tag_name = ''div'', tag_str = ''<div class=a>X</div>'', tag_text = ''X''\<rparr>"

definition tag_div_b :: tag where
  "tag_div_b = \<lparr>tag_name = ''div'', tag_str = ''<div class=b>Y</div>'', tag_text = ''Y''\<rparr>"

definition sample_soup :: soup where
  "sample_soup =
     \<lparr>find_all = [tag_html, tag_body, tag_main, tag_div_a, tag_div_b, tag_div_a],
      prettify = ''<html> <body> '' @ sample_page @ '' </body> </html>'',
      soup_text = ''XYX''\<rparr>"

text \<open>A compiled transform: the text twice.\<close>

definition double_text :: transform where
  "double_text x = Inr (x @ x)"

definition sample_response :: response where
  "sample_response =
     \<lparr>resp_status_code = 200, resp_text = sample_page, resp_repr = ''<Response [200]>''\<rparr>"

definition sample_env :: env where
  "sample_env =
     \<lparr>async_fetch =
        (\<lambda>earlier url. if earlier = [] then Inr sample_response
                         else Inl (PyException ''ConnectionError()'')),
      BeautifulSoup =
        (\<lambda>markup. if markup = sample_page then sample_soup
                    else \<lparr>find_all = [], prettify = markup, soup_text = markup\<rparr>),
      re_compile =
        (\<lambda>pattern. if pattern = ''('' then Inl (PyException ''error(missing ))'')
                     else Inr (\<lambda>t. contains (takeWhile (\<lambda>c. c \<noteq> CHR ''>'') (tag_str t))
                                           (''class='' @ pattern))),
      exec =
        (\<lambda>source e w.
           \<lparr>defined = (if contains source ''return x + x'' then Inr double_text
                       else Inl (PyException ''SyntaxError(invalid syntax)'')),
            self_after = e, shown = [], fetched = []\<rparr>),
      html_to_plain = (\<lambda>h. h)\<rparr>"

definition sample_world :: world where
  "sample_world = \<lparr>status_bar = [], requested = [], next_id = 1\<rparr>"

definition sample_entity :: entity where
  "sample_entity = (EntityBox_init 0)\<lparr>input_url := sample_url\<rparr>"

text \<open>The sample entity after one fetch, and after a second one.\<close>

definition after_first_fetch :: "entity \<times> world" where
  "after_first_fetch = state_of (requests_get sample_env sample_entity sample_world)"

definition after_second_fetch :: "entity \<times> world" where
  "after_second_fetch =
     state_of (requests_get sample_env (fst after_first_fetch) (snd after_first_fetch))"

text \<open>The sample entity with a transform enabled, compiled and handed to the display.\<close>

definition transformed_entity :: entity where
  "transformed_entity =
     sample_entity\<lparr>is_with_transform := True,
       func_transform := Some double_text,
       form_row4_visible := True,
       input_transform_receivers := 1,
       input_transform := ''def f(x):'' @ [newline] @ '' return x + x'',
       display := ScrollDisplay_init\<lparr>display_func_transform := Some double_text\<rparr>\<rparr>"

text \<open>
  What the description of the extractor asks of the result, in its own words: the elements
  in document order, where an element identical in markup to one already collected is
  skipped.  It is compared below with the loop of \<open>requests_extract\<close>.
\<close>

fun without_repeats :: "string list \<Rightarrow> string list" where
  "without_repeats [] = []"
| "without_repeats (m # ms) = m # without_repeats (filter (\<lambda>x. x \<noteq> m) ms)"

text \<open>The fetched sample entity with a class filter, and with a text filter.\<close>

definition css_entity :: entity where
  "css_entity = (fst after_first_fetch)\<lparr>input_filter := ''a''\<rparr>"

definition text_entity :: entity where
  "text_entity = (fst after_first_fetch)\<lparr>input_filter := ''X'', is_with_css := False\<rparr>"

text \<open>A display in Clean mode with no transform.\<close>

definition clean_display :: scroll_display where
  "clean_display = ScrollDisplay_init\<lparr>output_option := 1\<rparr>"









section \<open>Properties of the display and of extraction\<close>

lemma sample_url_matches: "re_match URL_RE sample_url"
  unfolding sample_url_def by code_simp

lemmas model_defs =
  requests_get_def enable_transform_def unset_display_transform_def set_transform_def
  send_to_display_def requests_extract_def set_text_def show_option_def with_transform_def
  set_status_def

lemma show_option_Some:
  "\<exists>d'. show_option env (Some h) d = Returns d' \<and>
        display_func_transform d' = display_func_transform d \<and>
        output_option d' = output_option d"
  by (simp add: show_option_def)

lemma set_text_no_transform:
  "display_func_transform d = None \<Longrightarrow> set_text env html d = show_option env html d"
  by (cases "show_option env html d")
     (auto simp: set_text_def show_option_def with_transform_def split: if_splits option.splits)

lemma resp_html_requests_extract:
  "status_code e = 200 \<Longrightarrow> resp_html_full e = Some h \<Longrightarrow>
   resp_html (requests_extract env e) =
     Some (if input_filter e = [] then h else resp_html_sub env e)"
  by (simp add: requests_extract_def)

text \<open>The state in which a fetch that completed with status 200 leaves the entity.\<close>

lemma requests_get_200:
  assumes "re_match URL_RE (input_url e)"
    and "async_fetch env (requested w) (input_url e) = Inr resp"
    and "resp_status_code resp = 200"
  shows "\<exists>e' d'.
    requests_get env e w =
      Returns (e'\<lparr>display := d'\<rparr>,
        w\<lparr>requested := requested w @ [input_url e],
          status_bar := status_bar w @ [''Transform disabled.'', ''URL Fetch succeeded.'']\<rparr>)
    \<and> e' = requests_extract env
          (e\<lparr>is_with_transform := False, form_row4_visible := False,
             input_transform_receivers := 0, func_transform := None,
             display := (display e)\<lparr>display_func_transform := None\<rparr>,
             status_code := 200, resp_raw := Some (resp_text resp),
             resp_soup := Some (BeautifulSoup env (resp_text resp)),
             resp_html_full := Some (prettify (BeautifulSoup env (resp_text resp))),
             btn_fetch_text := ''Re-fetch'', input_filter_enabled := True\<rparr>)
    \<and> show_option env (resp_html e') ((display e)\<lparr>display_func_transform := None\<rparr>)
          = Returns d'"
proof -
  let ?e2 = "e\<lparr>is_with_transform := False, form_row4_visible := False,
             input_transform_receivers := 0, func_transform := None,
             display := (display e)\<lparr>display_func_transform := None\<rparr>,
             status_code := 200, resp_raw := Some (resp_text resp),
             resp_soup := Some (BeautifulSoup env (resp_text resp)),
             resp_html_full := Some (prettify (BeautifulSoup env (resp_text resp))),
             btn_fetch_text := ''Re-fetch'', input_filter_enabled := True\<rparr>"
  let ?e' = "requests_extract env ?e2"
  have "\<exists>h. resp_html ?e' = Some h"
    by (subst resp_html_requests_extract) simp_all
  then obtain h where h: "resp_html ?e' = Some h" ..
  have disp: "display ?e' = (display e)\<lparr>display_func_transform := None\<rparr>"
    by (simp add: requests_extract_def)
  obtain d' where d': "show_option env (Some h) (display ?e') = Returns d'"
    using show_option_Some by blast
  have st: "set_text env (resp_html ?e') (display ?e') = Returns d'"
    using d' h disp by (simp add: set_text_no_transform)
  have "send_to_display env ?e2 = Returns (?e'\<lparr>display := d'\<rparr>)"
    using st by (simp add: send_to_display_def Let_def)
  then have "requests_get env e w =
      Returns (?e'\<lparr>display := d'\<rparr>,
        w\<lparr>requested := requested w @ [input_url e],
          status_bar := status_bar w @ [''Transform disabled.'', ''URL Fetch succeeded.'']\<rparr>)"
    using assms
    by (simp add: requests_get_def enable_transform_def unset_display_transform_def
        set_transform_def set_status_def Let_def)
  then show ?thesis
    using d' h disp by auto
qed


lemma after_first_fetch_entity:
  "fst after_first_fetch =
     sample_entity\<lparr>status_code := 200, resp_raw := Some sample_page,
       resp_soup := Some sample_soup, resp_html_full := Some (prettify sample_soup),
       btn_fetch_text := ''Re-fetch'', input_filter_enabled := True,
       resp_html := Some (prettify sample_soup),
       display := ScrollDisplay_init\<lparr>label := Rich (prettify sample_soup)\<rparr>\<rparr>"
  using sample_url_matches
  by (simp add: after_first_fetch_def model_defs sample_env_def sample_world_def
      sample_entity_def sample_response_def EntityBox_init_def ScrollDisplay_init_def)

lemma after_first_fetch_world:
  "snd after_first_fetch =
     \<lparr>status_bar = [''Transform disabled.'', ''URL Fetch succeeded.''],
      requested = [sample_url], next_id = 1\<rparr>"
  using sample_url_matches
  by (simp add: after_first_fetch_def model_defs sample_env_def sample_world_def
      sample_entity_def sample_response_def EntityBox_init_def ScrollDisplay_init_def)

section \<open>Fetching\<close>

text \<open>
  C4.  When the text of the URL input does not match \<open>URL_RE\<close>, \<open>requests_get\<close>
  returns at once: the invalid-URL message goes to the status bar, no request is made
  (the list of requested URLs is the same) and the entity, cached fields included, is
  left as it was.
\<close>

theorem requests_get_invalid_url:
  "\<not> re_match URL_RE (input_url e) \<Longrightarrow>
   requests_get env e w = Returns (e, w\<lparr>status_bar := status_bar w @ [invalid_url_msg]\<rparr>)"
  by (simp add: requests_get_def set_status_def)

text \<open>
  The URL a new EntityBox starts with, \<open>https://\<close>, has no host and does not match.
\<close>

theorem requests_get_invalid_url_witness:
  "\<not> re_match URL_RE (input_url (EntityBox_init 0)) \<and>
   requests_get sample_env (EntityBox_init 0) sample_world =
     Returns (EntityBox_init 0, sample_world\<lparr>status_bar := [invalid_url_msg]\<rparr>)"
proof -
  have h: "\<not> re_match URL_RE (input_url (EntityBox_init 0))"
    by (simp add: EntityBox_init_def URL_RE_def Opt_def Plus_def)
  show ?thesis
    using h requests_get_invalid_url [OF h, of sample_env sample_world]
    by (simp add: sample_world_def)
qed

text \<open>
  C3, as the code has it.  When the URL matches and the fetch raises or completes with a
  status other than 200, \<open>requests_get\<close> returns with the entity exactly as it was: the
  URL, the configuration and every cached field keep their values (nothing is reset).
  The request is recorded and the description of the exception or of the response goes
  to the status bar.
\<close>

theorem requests_get_failure_keeps_entity:
  assumes "re_match URL_RE (input_url e)"
    and "\<forall>resp. async_fetch env (requested w) (input_url e) = Inr resp
           \<longrightarrow> resp_status_code resp \<noteq> 200"
  shows "requests_get env e w =
     Returns (e, w\<lparr>requested := requested w @ [input_url e],
                  status_bar := status_bar w @
                    [case async_fetch env (requested w) (input_url e) of
                       Inl x \<Rightarrow> py_repr x | Inr resp \<Rightarrow> resp_repr resp]\<rparr>)"
  using assms
  by (cases "async_fetch env (requested w) (input_url e)")
     (simp_all add: requests_get_def set_status_def Let_def)

theorem requests_get_failure_keeps_entity_witness:
  "re_match URL_RE (input_url sample_entity) \<and>
   async_fetch sample_env [sample_url] (input_url sample_entity)
     = Inl (PyException ''ConnectionError()'') \<and>
   requests_get sample_env sample_entity (sample_world\<lparr>requested := [sample_url]\<rparr>) =
     Returns (sample_entity,
       sample_world\<lparr>requested := [sample_url, sample_url],
                     status_bar := [''ConnectionError()'']\<rparr>)"
proof -
  have m: "re_match URL_RE (input_url sample_entity)"
    using sample_url_matches by (simp add: sample_entity_def)
  have f: "async_fetch sample_env [sample_url] (input_url sample_entity)
             = Inl (PyException ''ConnectionError()'')"
    by (simp add: sample_env_def)
  show ?thesis
    using m f
      requests_get_failure_keeps_entity
        [of sample_entity sample_env "sample_world\<lparr>requested := [sample_url]\<rparr>"]
    by (simp add: sample_world_def sample_entity_def)
qed

text \<open>
  C3 as stated fails: the sample entity is fetched once with status 200, the second
  fetch fails to connect, and the status code, the raw document, the parsed tree, the
  extracted fragment and the displayed text of the first fetch are all still there.
\<close>

theorem requests_get_failure_no_reset:
  "async_fetch sample_env (requested (snd after_first_fetch)) (input_url (fst after_first_fetch))
     = Inl (PyException ''ConnectionError()'') \<and>
   status_code (fst after_second_fetch) = 200 \<and>
   resp_raw (fst after_second_fetch) = Some sample_page \<and>
   resp_soup (fst after_second_fetch) = Some sample_soup \<and>
   resp_html (fst after_second_fetch) = Some (prettify sample_soup) \<and>
   label (display (fst after_second_fetch)) = Rich (prettify sample_soup)"
proof -
  have m: "re_match URL_RE (input_url (fst after_first_fetch))"
    using sample_url_matches by (simp add: after_first_fetch_entity sample_entity_def)
  have f: "async_fetch sample_env (requested (snd after_first_fetch))
             (input_url (fst after_first_fetch)) = Inl (PyException ''ConnectionError()'')"
    by (simp add: after_first_fetch_world sample_env_def)
  have "fst after_second_fetch = fst after_first_fetch"
    unfolding after_second_fetch_def using m f
    by (simp add: requests_get_def Let_def)
  then show ?thesis
    using f by (simp add: after_first_fetch_entity sample_entity_def)
qed

text \<open>
  C10.  A fetch that completes with status 200 disables the transform before it renders:
  \<open>is_with_transform\<close> is false, the compiled transform is gone from the entity and from
  the display, the transform input is hidden and disconnected, and the display shows what
  the output option alone makes of the new extraction, with no transform applied to it.
\<close>

theorem fetch_200_disables_transform:
  assumes "re_match URL_RE (input_url e)"
    and "async_fetch env (requested w) (input_url e) = Inr resp"
    and "resp_status_code resp = 200"
  shows "\<exists>e' w'. requests_get env e w = Returns (e', w') \<and>
           \<not> is_with_transform e' \<and>
           func_transform e' = None \<and>
           display_func_transform (display e') = None \<and>
           \<not> form_row4_visible e' \<and>
           input_transform_receivers e' = 0 \<and>
           resp_raw e' = Some (resp_text resp) \<and>
           show_option env (resp_html e') ((display e)\<lparr>display_func_transform := None\<rparr>)
             = Returns (display e')"
proof -
  obtain e1 d1 where r: "requests_get env e w =
      Returns (e1\<lparr>display := d1\<rparr>,
        w\<lparr>requested := requested w @ [input_url e],
          status_bar := status_bar w @ [''Transform disabled.'', ''URL Fetch succeeded.'']\<rparr>)"
    and e1: "e1 = requests_extract env
          (e\<lparr>is_with_transform := False, form_row4_visible := False,
             input_transform_receivers := 0, func_transform := None,
             display := (display e)\<lparr>display_func_transform := None\<rparr>,
             status_code := 200, resp_raw := Some (resp_text resp),
             resp_soup := Some (BeautifulSoup env (resp_text resp)),
             resp_html_full := Some (prettify (BeautifulSoup env (resp_text resp))),
             btn_fetch_text := ''Re-fetch'', input_filter_enabled := True\<rparr>)"
    and d1: "show_option env (resp_html e1) ((display e)\<lparr>display_func_transform := None\<rparr>)
          = Returns d1"
    using requests_get_200 [OF assms] by blast
  have h: "\<exists>h. resp_html e1 = Some h"
    unfolding e1 by (subst resp_html_requests_extract) simp_all
  have t: "display_func_transform d1 = None"
    using d1 h by (auto simp: show_option_def split: if_splits)
  have fields: "\<not> is_with_transform e1" "func_transform e1 = None" "\<not> form_row4_visible e1"
      "input_transform_receivers e1 = 0" "resp_raw e1 = Some (resp_text resp)"
    unfolding e1 by (simp_all add: requests_extract_def)
  show ?thesis
    using r d1 t fields by simp
qed

text \<open>
  The sample entity had a transform that doubles the text; after the fetch the display
  holds the page once, as markup.
\<close>

theorem fetch_200_disables_transform_witness:
  "is_with_transform transformed_entity \<and>
   func_transform transformed_entity \<noteq> None \<and>
   display_func_transform (display transformed_entity) \<noteq> None \<and>
   \<not> is_with_transform (fst (state_of (requests_get sample_env transformed_entity sample_world))) \<and>
   func_transform (fst (state_of (requests_get sample_env transformed_entity sample_world))) = None \<and>
   display (fst (state_of (requests_get sample_env transformed_entity sample_world)))
     = ScrollDisplay_init\<lparr>label := Rich (prettify sample_soup)\<rparr>"
proof -
  have m: "re_match URL_RE (input_url transformed_entity)"
    using sample_url_matches by (simp add: transformed_entity_def sample_entity_def)
  have f: "async_fetch sample_env (requested sample_world) (input_url transformed_entity)
             = Inr sample_response"
    by (simp add: sample_env_def sample_world_def)
  have s: "resp_status_code sample_response = 200"
    by (simp add: sample_response_def)
  obtain e' w' where r: "requests_get sample_env transformed_entity sample_world = Returns (e', w')"
    and p: "\<not> is_with_transform e'" "func_transform e' = None"
      "show_option sample_env (resp_html e')
         ((display transformed_entity)\<lparr>display_func_transform := None\<rparr>) = Returns (display e')"
    using fetch_200_disables_transform [OF m f s] by blast
  have "resp_html e' = Some (prettify sample_soup)"
    using r sample_url_matches
    by (auto simp: model_defs transformed_entity_def sample_env_def sample_world_def
        sample_entity_def sample_response_def EntityBox_init_def ScrollDisplay_init_def)
  then have "display e' = ScrollDisplay_init\<lparr>label := Rich (prettify sample_soup)\<rparr>"
    using p(3) by (auto simp: show_option_def transformed_entity_def ScrollDisplay_init_def)
  then show ?thesis
    using r p by (simp add: transformed_entity_def)
qed

text \<open>
  C7.  After a fetch that completed with status 200, \<open>resp_html_full\<close> is the prettified
  parse of the response text; with an empty filter the extraction of that fetch, and any
  later extraction in either filter mode, is \<open>resp_html_full\<close> itself.
\<close>

theorem empty_filter_gives_full_document:
  assumes "re_match URL_RE (input_url e)"
    and "async_fetch env (requested w) (input_url e) = Inr resp"
    and "resp_status_code resp = 200"
  shows "\<exists>e' w'. requests_get env e w = Returns (e', w') \<and>
           resp_html_full e' = Some (prettify (BeautifulSoup env (resp_text resp))) \<and>
           (input_filter e = [] \<longrightarrow> resp_html e' = resp_html_full e') \<and>
           (\<forall>css. resp_html (requests_extract env (e'\<lparr>input_filter := [], is_with_css := css\<rparr>))
                    = resp_html_full e')"
proof -
  obtain e1 d1 where r: "requests_get env e w =
      Returns (e1\<lparr>display := d1\<rparr>,
        w\<lparr>requested := requested w @ [input_url e],
          status_bar := status_bar w @ [''Transform disabled.'', ''URL Fetch succeeded.'']\<rparr>)"
    and e1: "e1 = requests_extract env
          (e\<lparr>is_with_transform := False, form_row4_visible := False,
             input_transform_receivers := 0, func_transform := None,
             display := (display e)\<lparr>display_func_transform := None\<rparr>,
             status_code := 200, resp_raw := Some (resp_text resp),
             resp_soup := Some (BeautifulSoup env (resp_text resp)),
             resp_html_full := Some (prettify (BeautifulSoup env (resp_text resp))),
             btn_fetch_text := ''Re-fetch'', input_filter_enabled := True\<rparr>)"
    using requests_get_200 [OF assms] by blast
  have full: "resp_html_full e1 = Some (prettify (BeautifulSoup env (resp_text resp)))"
    and code: "status_code e1 = 200"
    and empty: "input_filter e = [] \<longrightarrow> resp_html e1 = resp_html_full e1"
    unfolding e1 by (simp_all add: requests_extract_def)
  have again: "resp_html (requests_extract env (e1\<lparr>display := d1, input_filter := [],
                 is_with_css := css\<rparr>)) = resp_html_full e1" for css
    using code by (simp add: requests_extract_def)
  show ?thesis
    using r full empty again by simp
qed

theorem empty_filter_gives_full_document_witness:
  "input_filter sample_entity = [] \<and>
   resp_html (fst (state_of (requests_get sample_env sample_entity sample_world)))
     = Some (prettify sample_soup) \<and>
   resp_html (requests_extract sample_env
      ((fst (state_of (requests_get sample_env sample_entity sample_world)))
         \<lparr>input_filter := [], is_with_css := False\<rparr>)) = Some (prettify sample_soup)"
proof -
  have m: "re_match URL_RE (input_url sample_entity)"
    using sample_url_matches by (simp add: sample_entity_def)
  have f: "async_fetch sample_env (requested sample_world) (input_url sample_entity)
             = Inr sample_response"
    by (simp add: sample_env_def sample_world_def)
  have s: "resp_status_code sample_response = 200"
    by (simp add: sample_response_def)
  have i: "input_filter sample_entity = []"
    by (simp add: sample_entity_def EntityBox_init_def)
  have b: "BeautifulSoup sample_env (resp_text sample_response) = sample_soup"
    by (simp add: sample_env_def sample_response_def)
  show ?thesis
    using i b empty_filter_gives_full_document [OF m f s] by auto
qed

section \<open>Extraction\<close>

lemma set_repo_html_loop:
  "set (repo_html_loop keep ts repo) = set repo \<union> tag_str ` {t \<in> set ts. keep t}"
  by (induction ts arbitrary: repo) auto

lemma set_without_repeats: "set (without_repeats ms) = set ms"
  by (induction ms rule: without_repeats.induct) auto

lemma distinct_without_repeats: "distinct (without_repeats ms)"
  by (induction ms rule: without_repeats.induct) (auto simp: set_without_repeats)

lemma repo_html_loop_without_repeats:
  "repo_html_loop keep ts repo =
     repo @ without_repeats (filter (\<lambda>m. m \<notin> set repo) (map tag_str (filter keep ts)))"
proof (induction ts arbitrary: repo)
  case Nil
  then show ?case by simp
next
  case (Cons t ts)
  have "(\<lambda>x. x \<noteq> tag_str t \<and> x \<notin> set repo) = (\<lambda>x. x \<notin> set repo \<and> x \<noteq> tag_str t)"
    by auto
  then show ?case
    using Cons.IH by (simp add: conj_commute)
qed


lemma repo_html_loop_Nil:
  "repo_html_loop keep ts [] = without_repeats (map tag_str (filter keep ts))"
  by (simp add: repo_html_loop_without_repeats)

lemma resp_html_requests_extract_filter:
  "status_code e = 200 \<Longrightarrow> input_filter e \<noteq> [] \<Longrightarrow>
   resp_html (requests_extract env e) =
     Some (case repo_html env e of Inr repo \<Rightarrow> join br_newline repo | Inl x \<Rightarrow> py_repr x)"
  by (simp add: requests_extract_def resp_html_sub_def)

lemma repo_html_Inl:
  "resp_soup e = Some sp \<Longrightarrow> repo_html env e = Inl x \<Longrightarrow>
   is_with_css e \<and> re_compile env (input_filter e) = Inl x"
  by (auto simp: repo_html_def split: if_splits sum.splits)

lemma repo_html_Inr_css:
  "resp_soup e = Some sp \<Longrightarrow> repo_html env e = Inr repo \<Longrightarrow> is_with_css e \<Longrightarrow>
   \<exists>class_matches. re_compile env (input_filter e) = Inr class_matches \<and>
     repo = repo_html_loop (\<lambda>t. tag_name t \<notin> set TAG_EXCLUDE)
              (filter class_matches (find_all sp)) []"
  by (auto simp: repo_html_def split: sum.splits)

lemma repo_html_Inr_text:
  "resp_soup e = Some sp \<Longrightarrow> repo_html env e = Inr repo \<Longrightarrow> \<not> is_with_css e \<Longrightarrow>
   repo = repo_html_loop
            (\<lambda>t. tag_name t \<notin> set TAG_EXCLUDE \<and> contains (tag_text t) (input_filter e))
            (find_all sp) []"
  by (auto simp: repo_html_def)

lemma css_entity_repo:
  "repo_html sample_env css_entity = Inr [''<div class=a>X</div>'']"
  by (simp add: css_entity_def after_first_fetch_entity repo_html_def sample_entity_def
      EntityBox_init_def sample_env_def sample_soup_def tag_html_def tag_body_def tag_main_def tag_div_a_def
      tag_div_b_def sample_page_def TAG_EXCLUDE_def)

text \<open>
  C5.  For a fetched entity with a filter that is not empty, in either filter mode: when
  the \<open>try\<close> block builds its list, the extraction is that list joined with
  \<open><br>\<close> and a newline, and every entry of the list is the markup of an element of
  the document whose tag name is not in \<open>TAG_EXCLUDE\<close> (the entries are whole elements:
  what is nested inside an element is part of its markup).  Otherwise the pattern did not
  compile in class mode and the extraction is the description of that error.
\<close>

theorem extraction_excludes_denylist:
  assumes "status_code e = 200" and "input_filter e \<noteq> []" and "resp_soup e = Some sp"
  shows "case repo_html env e of
           Inr repo \<Rightarrow>
             resp_html (requests_extract env e) = Some (join br_newline repo) \<and>
             (\<forall>m \<in> set repo. \<exists>t \<in> set (find_all sp).
                 tag_str t = m \<and> tag_name t \<notin> set TAG_EXCLUDE)
         | Inl x \<Rightarrow>
             resp_html (requests_extract env e) = Some (py_repr x) \<and>
             is_with_css e \<and> re_compile env (input_filter e) = Inl x"
proof (cases "repo_html env e")
  case (Inl x)
  then show ?thesis
    using assms repo_html_Inl [OF assms(3) Inl]
    by (simp add: resp_html_requests_extract_filter)
next
  case (Inr repo)
  have "\<exists>t \<in> set (find_all sp). tag_str t = m \<and> tag_name t \<notin> set TAG_EXCLUDE"
    if m: "m \<in> set repo" for m
  proof (cases "is_with_css e")
    case True
    then obtain class_matches where
      "repo = repo_html_loop (\<lambda>t. tag_name t \<notin> set TAG_EXCLUDE)
                (filter class_matches (find_all sp)) []"
      using repo_html_Inr_css [OF assms(3) Inr] by blast
    then show ?thesis
      using m by (auto simp: set_repo_html_loop)
  next
    case False
    then show ?thesis
      using m repo_html_Inr_text [OF assms(3) Inr] by (auto simp: set_repo_html_loop)
  qed
  then show ?thesis
    using Inr assms by (simp add: resp_html_requests_extract_filter)
qed

text \<open>
  In the sample document the \<open>main\<close> element carries the class \<open>a\<close> and is left out.
\<close>

theorem extraction_excludes_denylist_witness:
  "tag_main \<in> set (find_all sample_soup) \<and> tag_name tag_main \<in> set TAG_EXCLUDE \<and>
   repo_html sample_env css_entity = Inr [''<div class=a>X</div>''] \<and>
   resp_html (requests_extract sample_env css_entity) = Some ''<div class=a>X</div>'' \<and>
   (\<exists>t \<in> set (find_all sample_soup).
       tag_str t = ''<div class=a>X</div>'' \<and> tag_name t \<notin> set TAG_EXCLUDE)"
proof -
  have c: "status_code css_entity = 200" and f: "input_filter css_entity \<noteq> []"
    and s: "resp_soup css_entity = Some sample_soup"
    by (simp_all add: css_entity_def after_first_fetch_entity)
  have "case repo_html sample_env css_entity of
           Inr repo \<Rightarrow>
             resp_html (requests_extract sample_env css_entity) = Some (join br_newline repo) \<and>
             (\<forall>m \<in> set repo. \<exists>t \<in> set (find_all sample_soup).
                 tag_str t = m \<and> tag_name t \<notin> set TAG_EXCLUDE)
         | Inl x \<Rightarrow>
             resp_html (requests_extract sample_env css_entity) = Some (py_repr x) \<and>
             is_with_css css_entity \<and> re_compile sample_env (input_filter css_entity) = Inl x"
    by (rule extraction_excludes_denylist [OF c f s])
  then have out: "resp_html (requests_extract sample_env css_entity)
                    = Some ''<div class=a>X</div>''"
    and ex: "\<exists>t \<in> set (find_all sample_soup).
               tag_str t = ''<div class=a>X</div>'' \<and> tag_name t \<notin> set TAG_EXCLUDE"
    unfolding css_entity_repo by simp_all
  have "tag_main \<in> set (find_all sample_soup)" "tag_name tag_main \<in> set TAG_EXCLUDE"
    by (simp_all add: sample_soup_def tag_main_def TAG_EXCLUDE_def)
  then show ?thesis
    using out ex css_entity_repo by blast
qed

lemma repo_html_text:
  "resp_soup e = Some sp \<Longrightarrow> \<not> is_with_css e \<Longrightarrow>
   repo_html env e =
     Inr (without_repeats (map tag_str
        (filter (\<lambda>t. tag_name t \<notin> set TAG_EXCLUDE \<and> contains (tag_text t) (input_filter e))
           (find_all sp))))"
  by (simp add: repo_html_def repo_html_loop_Nil)

lemma repo_html_css:
  "resp_soup e = Some sp \<Longrightarrow> is_with_css e \<Longrightarrow>
   re_compile env (input_filter e) = Inr class_matches \<Longrightarrow>
   repo_html env e =
     Inr (without_repeats (map tag_str
        (filter (\<lambda>t. tag_name t \<notin> set TAG_EXCLUDE) (filter class_matches (find_all sp)))))"
  by (simp add: repo_html_def repo_html_loop_Nil)

lemma repo_html_css_error:
  "resp_soup e = Some sp \<Longrightarrow> is_with_css e \<Longrightarrow>
   re_compile env (input_filter e) = Inl x \<Longrightarrow> repo_html env e = Inl x"
  by (simp add: repo_html_def)

lemma sample_class_filter:
  "filter (\<lambda>t. contains (takeWhile (\<lambda>c. c \<noteq> CHR ''>'') (tag_str t)) ''class=a'')
     (find_all sample_soup) = [tag_main, tag_div_a, tag_div_a]"
  by (simp add: sample_soup_def tag_html_def tag_body_def tag_main_def tag_div_a_def
      tag_div_b_def sample_page_def)

lemma sample_text_filter:
  "filter (\<lambda>t. tag_name t \<notin> set TAG_EXCLUDE \<and> contains (tag_text t) ''X'')
     (find_all sample_soup) = [tag_body, tag_div_a, tag_div_a]"
  by (simp add: sample_soup_def tag_html_def tag_body_def tag_main_def tag_div_a_def
      tag_div_b_def TAG_EXCLUDE_def)

text \<open>
  C6.  For a fetched entity with a filter that is not empty: in text mode, and in class
  mode whenever the pattern compiles, the extraction is a list joined with \<open><br>\<close> and
  a newline; the list has no entry twice, and it is the markup of the selected elements in
  document order with every later repeat of an entry left out.  The selected elements are
  those whose text contains the filter (text mode) or that the compiled pattern accepts
  (class mode), without the tags of \<open>TAG_EXCLUDE\<close>.  In class mode with a pattern that
  does not compile the extraction is the description of the error.
\<close>

theorem extraction_skips_repeats:
  assumes "status_code e = 200" and "input_filter e \<noteq> []" and "resp_soup e = Some sp"
  shows "(\<not> is_with_css e \<longrightarrow>
            (\<exists>repo. resp_html (requests_extract env e) = Some (join br_newline repo) \<and>
               distinct repo \<and>
               repo = without_repeats (map tag_str
                 (filter (\<lambda>t. tag_name t \<notin> set TAG_EXCLUDE
                             \<and> contains (tag_text t) (input_filter e))
                    (find_all sp))))) \<and>
         (is_with_css e \<longrightarrow>
            (\<forall>class_matches. re_compile env (input_filter e) = Inr class_matches \<longrightarrow>
               (\<exists>repo. resp_html (requests_extract env e) = Some (join br_newline repo) \<and>
                  distinct repo \<and>
                  repo = without_repeats (map tag_str
                    (filter (\<lambda>t. tag_name t \<notin> set TAG_EXCLUDE)
                       (filter class_matches (find_all sp))))))) \<and>
         (is_with_css e \<longrightarrow>
            (\<forall>x. re_compile env (input_filter e) = Inl x \<longrightarrow>
               resp_html (requests_extract env e) = Some (py_repr x)))"
proof (intro conjI impI allI)
  assume "\<not> is_with_css e"
  then show "\<exists>repo. resp_html (requests_extract env e) = Some (join br_newline repo) \<and>
               distinct repo \<and>
               repo = without_repeats (map tag_str
                 (filter (\<lambda>t. tag_name t \<notin> set TAG_EXCLUDE
                             \<and> contains (tag_text t) (input_filter e))
                    (find_all sp)))"
    using assms
    by (simp add: resp_html_requests_extract_filter repo_html_text distinct_without_repeats)
next
  fix class_matches
  assume "is_with_css e" and "re_compile env (input_filter e) = Inr class_matches"
  then show "\<exists>repo. resp_html (requests_extract env e) = Some (join br_newline repo) \<and>
                  distinct repo \<and>
                  repo = without_repeats (map tag_str
                    (filter (\<lambda>t. tag_name t \<notin> set TAG_EXCLUDE)
                       (filter class_matches (find_all sp))))"
    using assms
    by (simp add: resp_html_requests_extract_filter repo_html_css distinct_without_repeats)
next
  fix x
  assume "is_with_css e" and "re_compile env (input_filter e) = Inl x"
  then show "resp_html (requests_extract env e) = Some (py_repr x)"
    using assms by (simp add: resp_html_requests_extract_filter repo_html_css_error)
qed

text \<open>
  In the sample document the class filter \<open>a\<close> selects the two equal \<open>div\<close> elements
  (\<open>main\<close> is excluded) and the text filter \<open>X\<close> selects \<open>body\<close> and the same two;
  in both modes the second \<open>div\<close> is skipped.
\<close>

theorem extraction_skips_repeats_witness:
  "find_all sample_soup = [tag_html, tag_body, tag_main, tag_div_a, tag_div_b, tag_div_a] \<and>
   is_with_css css_entity \<and>
   resp_html (requests_extract sample_env css_entity) = Some (tag_str tag_div_a) \<and>
   \<not> is_with_css text_entity \<and>
   resp_html (requests_extract sample_env text_entity)
     = Some (tag_str tag_body @ br_newline @ tag_str tag_div_a)"
proof -
  have c: "status_code css_entity = 200" "input_filter css_entity \<noteq> []"
      "resp_soup css_entity = Some sample_soup" "is_with_css css_entity"
    by (simp_all add: css_entity_def after_first_fetch_entity sample_entity_def
        EntityBox_init_def)
  have t: "status_code text_entity = 200" "input_filter text_entity \<noteq> []"
      "resp_soup text_entity = Some sample_soup" "\<not> is_with_css text_entity"
    by (simp_all add: text_entity_def after_first_fetch_entity)
  have rc: "re_compile sample_env (input_filter css_entity) =
      Inr (\<lambda>t. contains (takeWhile (\<lambda>c. c \<noteq> CHR ''>'') (tag_str t)) ''class=a'')"
    by (simp add: sample_env_def css_entity_def)
  have ne: "tag_str tag_body \<noteq> tag_str tag_div_a"
    by (simp add: tag_body_def tag_div_a_def)
  obtain repo where r1: "resp_html (requests_extract sample_env css_entity)
                           = Some (join br_newline repo)"
    and r2: "repo = without_repeats (map tag_str
               (filter (\<lambda>t. tag_name t \<notin> set TAG_EXCLUDE)
                  (filter (\<lambda>t. contains (takeWhile (\<lambda>c. c \<noteq> CHR ''>'') (tag_str t))
                             ''class=a'')
                     (find_all sample_soup))))"
    using extraction_skips_repeats [OF c(1,2,3), of sample_env] c(4) rc by blast
  have "repo = [tag_str tag_div_a]"
    unfolding r2 sample_class_filter
    by (simp add: tag_main_def tag_div_a_def TAG_EXCLUDE_def)
  then have a: "resp_html (requests_extract sample_env css_entity) = Some (tag_str tag_div_a)"
    using r1 by simp
  obtain repo' where s1: "resp_html (requests_extract sample_env text_entity)
                            = Some (join br_newline repo')"
    and s2: "repo' = without_repeats (map tag_str
               (filter (\<lambda>t. tag_name t \<notin> set TAG_EXCLUDE
                           \<and> contains (tag_text t) (input_filter text_entity))
                  (find_all sample_soup)))"
    using extraction_skips_repeats [OF t(1,2,3), of sample_env] t(4) by blast
  have i: "input_filter text_entity = ''X''"
    by (simp add: text_entity_def)
  have "repo' = [tag_str tag_body, tag_str tag_div_a]"
    unfolding s2 i sample_text_filter using ne by simp
  then have b: "resp_html (requests_extract sample_env text_entity)
     = Some (tag_str tag_body @ br_newline @ tag_str tag_div_a)"
    using s1 by simp
  have "find_all sample_soup = [tag_html, tag_body, tag_main, tag_div_a, tag_div_b, tag_div_a]"
    by (simp add: sample_soup_def)
  then show ?thesis
    using a b c(4) t(4) by blast
qed

section \<open>Rendering\<close>

text \<open>
  C8, at the input where the code leaves it.  The fragment \<open>a|b\<close> has the text
  \<open>a|b\<close>, with no whitespace in it; in Clean mode the display shows \<open>a\<close>, a newline
  and \<open>b\<close>: the vertical bar stands in the character class of the pattern and is
  replaced like a space.
\<close>

theorem clean_text_replaces_bar:
  "soup_text (BeautifulSoup sample_env ''a|b'') = ''a|b'' \<and>
   set_text sample_env (Some ''a|b'') clean_display =
     Returns (clean_display\<lparr>label := Plain (''a'' @ [newline] @ ''b'')\<rparr>)"
  by (simp add: set_text_def show_option_def with_transform_def clean_display_def
      ScrollDisplay_init_def sample_env_def sample_page_def clean_class_def newline_def)

section \<open>Loading the configuration\<close>

lemma rmv_display_times_all:
  "length (list_entity_box mw) \<le> n \<Longrightarrow>
   list_entity_box (fst (rmv_display_times n mw w)) = []"
proof (induction n arbitrary: mw w)
  case 0
  then show ?case by simp
next
  case (Suc n)
  show ?case
  proof (cases "list_entity_box mw = []")
    case True
    then show ?thesis
      using Suc.IH [of "mw" "set_status ''Cannot remove widget'' w"]
      by (simp add: rmv_display_def)
  next
    case False
    have "length (butlast (list_entity_box mw)) \<le> n"
      using Suc.prems by simp
    then show ?thesis
      using False
        Suc.IH [of "mw\<lparr>list_entity_box := butlast (list_entity_box mw)\<rparr>"
                   "set_status ''Removed bottom most widget'' w"]
      by (simp add: rmv_display_def)
  qed
qed

lemma rmv_all_display_empty: "list_entity_box (fst (rmv_all_display mw w)) = []"
  using rmv_display_times_all [of mw "length (list_entity_box mw)" w]
  by (auto simp: rmv_all_display_def split: prod.splits)

lemma load_config_not_found:
  "load_config env FileNotFound mw w =
     Returns (fst (rmv_all_display mw w),
       set_status ''Load config succeeded.''
         (set_status not_found_msg (snd (rmv_all_display mw w))))"
  by (cases "rmv_all_display mw w") (simp add: load_config_def open_and_load_def)

text \<open>
  C9, at the input where the code leaves it.  When \<open>json.load\<close> rejects the content of
  config.json, \<open>load_config\<close> has emptied the list of entities and reported
  \<open>corrupted_msg\<close>, and then raises the UnboundLocalError of the loop over the unbound
  \<open>cfg\<close>: the exception leaves the loader.
\<close>

theorem load_config_malformed_raises:
  "load_config env Malformed mw w =
     Raises UnboundLocalError_cfg
       (fst (rmv_all_display mw w), set_status corrupted_msg (snd (rmv_all_display mw w))) \<and>
   list_entity_box (fst (state_of (load_config env Malformed mw w))) = []"
proof -
  have "load_config env Malformed mw w =
     Raises UnboundLocalError_cfg
       (fst (rmv_all_display mw w), set_status corrupted_msg (snd (rmv_all_display mw w)))"
    by (cases "rmv_all_display mw w")
       (simp add: load_config_def open_and_load_def UnboundLocalError_cfg_def)
  then show ?thesis
    by (simp add: rmv_all_display_empty)
qed

section \<open>Compiling a transform\<close>






















section \<open>Saving and loading the configuration of an entity\<close>














end
